theory Spec2Isabelle
  imports Complex_Main
begin

section \<open>Vectors and matrices (the operations of mathutils the program uses)\<close>

text \<open>
  The program computes with Python floats and with the \<open>Vector\<close> and \<open>Matrix\<close> values of
  Blender's mathutils library. Floating-point numbers are idealised as real numbers
  throughout: \<open>math.sqrt\<close>, \<open>math.acos\<close> and \<open>math.pi\<close> are \<open>sqrt\<close>, \<open>arccos\<close> and \<open>pi\<close>, and no
  rounding takes place. The library operations are written out below as the library
  documents them: a \<open>Vector\<close> is a triple of coordinates and a \<open>Matrix\<close> of size 4 is a table
  of four rows of four entries.
\<close>

datatype Vector = Vector (vx: real) (vy: real) (vz: real)

definition vadd :: "Vector \<Rightarrow> Vector \<Rightarrow> Vector" where
  "vadd a b = Vector (vx a + vx b) (vy a + vy b) (vz a + vz b)"

definition vsub :: "Vector \<Rightarrow> Vector \<Rightarrow> Vector" where
  "vsub a b = Vector (vx a - vx b) (vy a - vy b) (vz a - vz b)"

definition vneg :: "Vector \<Rightarrow> Vector" where
  "vneg a = Vector (- vx a) (- vy a) (- vz a)"

definition vdiv :: "Vector \<Rightarrow> real \<Rightarrow> Vector" where
  "vdiv a k = Vector (vx a / k) (vy a / k) (vz a / k)"

definition cross :: "Vector \<Rightarrow> Vector \<Rightarrow> Vector" where
  "cross a b = Vector (vy a * vz b - vz a * vy b)
                      (vz a * vx b - vx a * vz b)
                      (vx a * vy b - vy a * vx b)"

definition dot :: "Vector \<Rightarrow> Vector \<Rightarrow> real" where
  "dot a b = vx a * vx b + vy a * vy b + vz a * vz b"

definition vlength :: "Vector \<Rightarrow> real" where
  "vlength a = sqrt (dot a a)"

text \<open>\<open>Vector.normalized()\<close>: the vector scaled to unit length; the zero vector stays zero.\<close>

definition normalized :: "Vector \<Rightarrow> Vector" where
  "normalized a = (if vlength a = 0 then Vector 0 0 0 else vdiv a (vlength a))"

datatype Row = Row real real real real

datatype Matrix = Matrix Row Row Row Row

text \<open>\<open>Matrix.Identity(4)\<close>.\<close>

definition Identity :: Matrix where
  "Identity = Matrix (Row 1 0 0 0) (Row 0 1 0 0) (Row 0 0 1 0) (Row 0 0 0 1)"

text \<open>\<open>Matrix.Translation(v)\<close>: the identity with \<open>v\<close> in the last column.\<close>

definition Translation :: "Vector \<Rightarrow> Matrix" where
  "Translation v =
     Matrix (Row 1 0 0 (vx v)) (Row 0 1 0 (vy v)) (Row 0 0 1 (vz v)) (Row 0 0 0 1)"

text \<open>
  \<open>Matrix.Rotation(angle, 4, axis)\<close> with a vector axis: the rotation by \<open>angle\<close> about the
  normalised axis (Rodrigues' formula), embedded in a 4x4 matrix; a zero axis gives the
  identity.
\<close>

definition Rotation :: "real \<Rightarrow> Vector \<Rightarrow> Matrix" where
  "Rotation angle axis =
     (if vlength axis = 0 then Identity
      else
        let n = normalized axis;
            c = cos angle;
            si = sin angle;
            ico = 1 - c;
            kx = vx n; ky = vy n; kz = vz n
        in Matrix
             (Row (kx * kx * ico + c) (kx * ky * ico - kz * si) (kx * kz * ico + ky * si) 0)
             (Row (kx * ky * ico + kz * si) (ky * ky * ico + c) (ky * kz * ico - kx * si) 0)
             (Row (kx * kz * ico - ky * si) (ky * kz * ico + kx * si) (kz * kz * ico + c) 0)
             (Row 0 0 0 1))"

text \<open>The matrix product \<open>A @ B\<close>.\<close>

fun matmul :: "Matrix \<Rightarrow> Matrix \<Rightarrow> Matrix" where
  "matmul (Matrix (Row a00 a01 a02 a03) (Row a10 a11 a12 a13)
                  (Row a20 a21 a22 a23) (Row a30 a31 a32 a33))
          (Matrix (Row b00 b01 b02 b03) (Row b10 b11 b12 b13)
                  (Row b20 b21 b22 b23) (Row b30 b31 b32 b33)) =
     Matrix
       (Row (a00 * b00 + a01 * b10 + a02 * b20 + a03 * b30)
            (a00 * b01 + a01 * b11 + a02 * b21 + a03 * b31)
            (a00 * b02 + a01 * b12 + a02 * b22 + a03 * b32)
            (a00 * b03 + a01 * b13 + a02 * b23 + a03 * b33))
       (Row (a10 * b00 + a11 * b10 + a12 * b20 + a13 * b30)
            (a10 * b01 + a11 * b11 + a12 * b21 + a13 * b31)
            (a10 * b02 + a11 * b12 + a12 * b22 + a13 * b32)
            (a10 * b03 + a11 * b13 + a12 * b23 + a13 * b33))
       (Row (a20 * b00 + a21 * b10 + a22 * b20 + a23 * b30)
            (a20 * b01 + a21 * b11 + a22 * b21 + a23 * b31)
            (a20 * b02 + a21 * b12 + a22 * b22 + a23 * b32)
            (a20 * b03 + a21 * b13 + a22 * b23 + a23 * b33))
       (Row (a30 * b00 + a31 * b10 + a32 * b20 + a33 * b30)
            (a30 * b01 + a31 * b11 + a32 * b21 + a33 * b31)
            (a30 * b02 + a31 * b12 + a32 * b22 + a33 * b32)
            (a30 * b03 + a31 * b13 + a32 * b23 + a33 * b33))"

text \<open>
  The product of a 4x4 matrix with a point, \<open>M @ v\<close>: the point is extended by a fourth
  coordinate 1 and the first three coordinates of the product are returned. This is how a
  placement's transform acts on the vertices of its mesh.
\<close>

fun transform_point :: "Matrix \<Rightarrow> Vector \<Rightarrow> Vector" where
  "transform_point (Matrix (Row a00 a01 a02 a03) (Row a10 a11 a12 a13)
                           (Row a20 a21 a22 a23) (Row a30 a31 a32 a33)) (Vector x y z) =
     Vector (a00 * x + a01 * y + a02 * z + a03)
            (a10 * x + a11 * y + a12 * z + a13)
            (a20 * x + a21 * y + a22 * z + a23)"

section \<open>Module parameters\<close>

definition size_param :: real where "size_param = 30"
definition nozzle_width :: real where "nozzle_width = 0.4"
definition scale_factor :: real where "scale_factor = 0.5"
definition recursion_depth :: int where "recursion_depth = 4"

section \<open>\<open>create_tetra\<close>\<close>

text \<open>
  The mesh built through bmesh: the vertices in the order they are added and the faces as
  lists of indices into them. The registration of the mesh in Blender's data is not part
  of the model.
\<close>

record mesh =
  mesh_verts :: "Vector list"
  mesh_faces :: "nat list list"

definition create_tetra :: "real \<Rightarrow> mesh" where
  "create_tetra s =
     (let points = [Vector 0 0 0,
                    Vector s 0 0,
                    Vector (s / 2) ((sqrt 3 / 2) * s) 0,
                    Vector (s / 2) ((sqrt 3 / 6) * s) (sqrt 6 / 3 * s)];
          faces = [[0, 1, 2], [0, 1, 3], [1, 2, 3], [2, 0, 3]]
      in \<lparr>mesh_verts = points, mesh_faces = faces\<rparr>)"

text \<open>The distance between two vertices.\<close>

definition distance :: "Vector \<Rightarrow> Vector \<Rightarrow> real" where
  "distance a b = vlength (vsub a b)"

section \<open>\<open>get_rotation_matrix_to_align\<close>\<close>

definition get_rotation_matrix_to_align :: "Vector \<Rightarrow> Vector \<Rightarrow> Matrix" where
  "get_rotation_matrix_to_align from_vec0 to_vec0 =
     (let from_vec = normalized from_vec0;
          to_vec = normalized to_vec0;
          axis = cross from_vec to_vec
      in if vlength axis < 0.0001 then
           (if dot from_vec to_vec > 0 then Identity
            else
              let perp = (if \<bar>vx from_vec\<bar> < 0.9 then Vector 1 0 0 else Vector 0 1 0);
                  axis' = normalized (cross from_vec perp)
              in Rotation pi axis')
         else
           let axis' = normalized axis;
               angle = arccos (max (-1) (min 1 (dot from_vec to_vec)))
           in Rotation angle axis')"

section \<open>\<open>fractal_tetra_simple\<close>\<close>

text \<open>A placement record: the mesh, a copy of the accumulated matrix, the depth.\<close>

type_synonym placement = "mesh \<times> Matrix \<times> int"

text \<open>The four faces of the tetrahedron of size \<open>s\<close>: vertices, given normal (if any), name.\<close>

type_synonym face = "Vector list \<times> Vector option \<times> string"

definition faces :: "real \<Rightarrow> face list" where
  "faces s =
     (let v0 = Vector 0 0 0;
          v1 = Vector s 0 0;
          v2 = Vector (s / 2) ((sqrt 3 / 2) * s) 0;
          v3 = Vector (s / 2) ((sqrt 3 / 6) * s) (sqrt 6 / 3 * s)
      in [([v0, v1, v2], Some (Vector 0 0 1), ''base''),
          ([v0, v1, v3], None, ''front''),
          ([v1, v2, v3], None, ''right''),
          ([v2, v0, v3], None, ''left'')])"

text \<open>The centroid of a face, as the loop body computes it.\<close>

definition face_centroid :: "Vector list \<Rightarrow> Vector" where
  "face_centroid face_verts =
     vdiv (vadd (vadd (face_verts ! 0) (face_verts ! 1)) (face_verts ! 2)) 3"

text \<open>The normal of a face, as the loop body computes it: the given one, or the negated
  normalised cross product of the two edges at the first vertex.\<close>

definition face_normal :: "Vector list \<Rightarrow> Vector option \<Rightarrow> Vector" where
  "face_normal face_verts normal =
     (case normal of
        Some n \<Rightarrow> n
      | None \<Rightarrow>
          let edge1 = vsub (face_verts ! 1) (face_verts ! 0);
              edge2 = vsub (face_verts ! 2) (face_verts ! 0);
              n = normalized (cross edge1 edge2)
          in vneg n)"

text \<open>The matrix handed to the child spawned on a face.\<close>

definition child_matrix :: "Matrix \<Rightarrow> real \<Rightarrow> Vector list \<Rightarrow> Vector option \<Rightarrow> Matrix" where
  "child_matrix parent_matrix next_size face_verts normal0 =
     (let centroid = face_centroid face_verts;
          normal = face_normal face_verts normal0;
          mat = parent_matrix;
          mat = matmul mat (Translation centroid);
          base_normal = Vector 0 0 (-1);
          rotation = get_rotation_matrix_to_align base_normal normal;
          mat = matmul mat rotation;
          base_centroid = Vector (next_size / 2) ((sqrt 3 / 6) * next_size) 0;
          mat = matmul mat (Translation (vneg base_centroid))
      in mat)"

text \<open>
  The recursive calls one execution of the loop makes, in order: for each face that is not
  skipped, the index of the face and the arguments of the call
  \<open>fractal_tetra_simple(next_size, depth - 1, mat, all_meshes, skip_base=True)\<close>.
\<close>

record call =
  c_face :: nat
  c_size :: real
  c_depth :: int
  c_matrix :: Matrix
  c_skip_base :: bool

definition child_calls :: "real \<Rightarrow> real \<Rightarrow> int \<Rightarrow> Matrix \<Rightarrow> bool \<Rightarrow> call list" where
  "child_calls scale_factor' s depth parent_matrix skip_base =
     (let next_size = s * scale_factor'
      in concat (map (\<lambda>(i, (face_verts, normal, name)).
            if skip_base \<and> i = 0 then []
            else [\<lparr>c_face = i, c_size = next_size, c_depth = depth - 1,
                   c_matrix = child_matrix parent_matrix next_size face_verts normal,
                   c_skip_base = True\<rparr>])
          (enumerate 0 (faces s))))"

text \<open>
  The recursion. The module-level \<open>nozzle_width\<close> and \<open>scale_factor\<close> are the first two
  arguments. The list \<open>all_meshes\<close> is shared and appended to in place by the program; here
  each call returns it. The default \<open>None\<close> stands for a fresh empty list. The \<open>print\<close>
  statements are left out. The body of the loop over the faces is \<open>child_calls\<close>, which
  computes the arguments of each recursive call, followed by the call itself. This
  function has no call stack; \<open>fractal_tetra_limited\<close> below is the same recursion under the
  interpreter's recursion limit.
\<close>

function fractal_tetra_simple ::
  "real \<Rightarrow> real \<Rightarrow> real \<Rightarrow> int \<Rightarrow> Matrix \<Rightarrow> placement list option \<Rightarrow> bool \<Rightarrow> placement list"
where
  "fractal_tetra_simple nozzle_width' scale_factor' s depth parent_matrix all_meshes0 skip_base =
     (let all_meshes = (case all_meshes0 of None \<Rightarrow> [] | Some l \<Rightarrow> l)
      in if s \<ge> nozzle_width' \<and> depth > 0 then
           fold (\<lambda>c acc.
                   fractal_tetra_simple nozzle_width' scale_factor'
                     (c_size c) (c_depth c) (c_matrix c) (Some acc) (c_skip_base c))
             (child_calls scale_factor' s depth parent_matrix skip_base)
             (all_meshes @ [(create_tetra s, parent_matrix, depth)])
         else all_meshes)"
  by pat_completeness auto
termination
  by (relation "measure (\<lambda>(nw, sf, s, depth, m, a, sb). nat depth)")
     (auto simp: child_calls_def faces_def Let_def split: if_splits)



text \<open>The program's top-level call
  \<open>fractal_tetra_simple(size, recursion_depth, skip_base=True)\<close>.\<close>

definition all_meshes_main :: "placement list" where
  "all_meshes_main =
     fractal_tetra_simple nozzle_width scale_factor size_param recursion_depth Identity None True"

text \<open>The records one child call emits when it starts from an empty list.\<close>

definition call_records :: "real \<Rightarrow> real \<Rightarrow> call \<Rightarrow> placement list" where
  "call_records nw sf c =
     fractal_tetra_simple nw sf (c_size c) (c_depth c) (c_matrix c) (Some []) (c_skip_base c)"

text \<open>
  The number of records a call with \<open>skip_base = True\<close> emits: one for the call itself and
  those of its three children.
\<close>

function emitted_count :: "real \<Rightarrow> real \<Rightarrow> real \<Rightarrow> int \<Rightarrow> nat" where
  "emitted_count nw sf s depth =
     (if s \<ge> nw \<and> depth > 0 then 1 + 3 * emitted_count nw sf (s * sf) (depth - 1) else 0)"
  by pat_completeness auto
termination
  by (relation "measure (\<lambda>(nw, sf, s, depth). nat depth)") auto

text \<open>A matrix whose last row is \<open>(0, 0, 0, 1)\<close> and whose last column has no translation.\<close>

definition fixes_origin :: "Matrix \<Rightarrow> bool" where
  "fixes_origin M =
     (case M of Matrix (Row _ _ _ a) (Row _ _ _ b) (Row _ _ _ c) (Row p q r w) \<Rightarrow>
        a = 0 \<and> b = 0 \<and> c = 0 \<and> p = 0 \<and> q = 0 \<and> r = 0 \<and> w = 1)"

text \<open>The centroid of the solid: the mean of the four vertices of the mesh.\<close>

definition solid_centroid :: "real \<Rightarrow> Vector" where
  "solid_centroid s =
     (let vs = mesh_verts (create_tetra s)
      in vdiv (vadd (vadd (vadd (vs ! 0) (vs ! 1)) (vs ! 2)) (vs ! 3)) 4)"

text \<open>
  For face \<open>i\<close> of the tetrahedron of size \<open>s\<close>: the dot product of the normal the loop body
  computes with the vector from the centroid of the solid to the centroid of the face. It
  is positive when the normal points away from the interior.
\<close>

definition outward_component :: "real \<Rightarrow> nat \<Rightarrow> real" where
  "outward_component s i =
     (case faces s ! i of (face_verts, normal, name) \<Rightarrow>
        dot (face_normal face_verts normal) (vsub (face_centroid face_verts) (solid_centroid s)))"

declare fractal_tetra_simple.simps [simp del]
declare emitted_count.simps [simp del]

section \<open>The tetrahedron is regular\<close>

lemma sqrt_eqI: "0 \<le> s \<Longrightarrow> e = s * s \<Longrightarrow> sqrt e = s"
  by (simp add: real_sqrt_mult)

lemma d01: "0 < s \<Longrightarrow>
    distance (mesh_verts (create_tetra s) ! 0) (mesh_verts (create_tetra s) ! 1) = s"
  unfolding distance_def vlength_def dot_def vsub_def create_tetra_def
  by (rule sqrt_eqI) (simp_all add: algebra_simps)

lemma d02: "0 < s \<Longrightarrow>
    distance (mesh_verts (create_tetra s) ! 0) (mesh_verts (create_tetra s) ! 2) = s"
  unfolding distance_def vlength_def dot_def vsub_def create_tetra_def
  by (rule sqrt_eqI) (simp_all add: algebra_simps)

lemma d03: "0 < s \<Longrightarrow>
    distance (mesh_verts (create_tetra s) ! 0) (mesh_verts (create_tetra s) ! 3) = s"
  unfolding distance_def vlength_def dot_def vsub_def create_tetra_def
  by (rule sqrt_eqI) (simp_all add: algebra_simps)

lemma d12: "0 < s \<Longrightarrow>
    distance (mesh_verts (create_tetra s) ! 1) (mesh_verts (create_tetra s) ! 2) = s"
  unfolding distance_def vlength_def dot_def vsub_def create_tetra_def
  by (rule sqrt_eqI) (simp_all add: algebra_simps)

lemma d13: "0 < s \<Longrightarrow>
    distance (mesh_verts (create_tetra s) ! 1) (mesh_verts (create_tetra s) ! 3) = s"
  unfolding distance_def vlength_def dot_def vsub_def create_tetra_def
  by (rule sqrt_eqI) (simp_all add: algebra_simps)

lemma d23: "0 < s \<Longrightarrow>
    distance (mesh_verts (create_tetra s) ! 2) (mesh_verts (create_tetra s) ! 3) = s"
  unfolding distance_def vlength_def dot_def vsub_def create_tetra_def
  by (rule sqrt_eqI) (simp_all add: algebra_simps)

lemma create_tetra_verts:
  "mesh_verts (create_tetra s) =
     [Vector 0 0 0, Vector s 0 0, Vector (s / 2) ((sqrt 3 / 2) * s) 0,
      Vector (s / 2) ((sqrt 3 / 6) * s) (sqrt 6 / 3 * s)]"
  by (simp add: create_tetra_def)

lemma create_tetra_faces:
  "mesh_faces (create_tetra s) = [[0, 1, 2], [0, 1, 3], [1, 2, 3], [2, 0, 3]]"
  by (simp add: create_tetra_def)

text \<open>
  Claim C4. For every edge length \<open>s > 0\<close>, \<open>create_tetra\<close> produces exactly the four vertices
  \<open>(0,0,0)\<close>, \<open>(s,0,0)\<close>, \<open>(s/2, (sqrt 3/2) s, 0)\<close>, \<open>(s/2, (sqrt 3/6) s, (sqrt 6/3) s)\<close> and the
  four faces \<open>(0,1,2)\<close>, \<open>(0,1,3)\<close>, \<open>(1,2,3)\<close>, \<open>(2,0,3)\<close>, and all six distances between two
  of the vertices are \<open>s\<close>.
\<close>

theorem create_tetra_regular:
  assumes "0 < s"
  shows "mesh_verts (create_tetra s) =
           [Vector 0 0 0, Vector s 0 0, Vector (s / 2) ((sqrt 3 / 2) * s) 0,
            Vector (s / 2) ((sqrt 3 / 6) * s) (sqrt 6 / 3 * s)]
         \<and> mesh_faces (create_tetra s) = [[0, 1, 2], [0, 1, 3], [1, 2, 3], [2, 0, 3]]
         \<and> distance (mesh_verts (create_tetra s) ! 0) (mesh_verts (create_tetra s) ! 1) = s
         \<and> distance (mesh_verts (create_tetra s) ! 0) (mesh_verts (create_tetra s) ! 2) = s
         \<and> distance (mesh_verts (create_tetra s) ! 0) (mesh_verts (create_tetra s) ! 3) = s
         \<and> distance (mesh_verts (create_tetra s) ! 1) (mesh_verts (create_tetra s) ! 2) = s
         \<and> distance (mesh_verts (create_tetra s) ! 1) (mesh_verts (create_tetra s) ! 3) = s
         \<and> distance (mesh_verts (create_tetra s) ! 2) (mesh_verts (create_tetra s) ! 3) = s"
  using create_tetra_verts [of s] create_tetra_faces [of s]
    d01 [OF assms] d02 [OF assms] d03 [OF assms] d12 [OF assms] d13 [OF assms] d23 [OF assms]
  by blast

theorem create_tetra_regular_witness:
  "(0::real) < 30
   \<and> mesh_faces (create_tetra 30) = [[0, 1, 2], [0, 1, 3], [1, 2, 3], [2, 0, 3]]
   \<and> distance (mesh_verts (create_tetra 30) ! 0) (mesh_verts (create_tetra 30) ! 3) = 30
   \<and> distance (mesh_verts (create_tetra 30) ! 2) (mesh_verts (create_tetra 30) ! 3) = 30"
proof -
  have h: "(0::real) < 30" by simp
  show ?thesis using create_tetra_regular [OF h] h by blast
qed

section \<open>What a call appends\<close>

lemma fts_stop:
  "\<not> (s \<ge> nw \<and> depth > 0) \<Longrightarrow> fractal_tetra_simple nw sf s depth m (Some acc) sb = acc"
  apply (subst fractal_tetra_simple.simps)
  apply (simp only: Let_def option.case if_not_P if_False)
  done

lemma fts_go:
  "s \<ge> nw \<Longrightarrow> depth > 0 \<Longrightarrow> fractal_tetra_simple nw sf s depth m (Some acc) sb =
     fold (\<lambda>c acc. fractal_tetra_simple nw sf (c_size c) (c_depth c) (c_matrix c) (Some acc) (c_skip_base c))
       (child_calls sf s depth m sb) (acc @ [(create_tetra s, m, depth)])"
  apply (subst fractal_tetra_simple.simps)
  apply (simp only: Let_def option.case if_P simp_thms)
  done

lemma fts_None: "fractal_tetra_simple nw sf s depth m None sb = fractal_tetra_simple nw sf s depth m (Some []) sb"
  apply (subst fractal_tetra_simple.simps)
  apply (subst (2) fractal_tetra_simple.simps)
  apply (simp only: Let_def option.case)
  done

lemma fold_append_acc:
  assumes "\<And>c acc. c \<in> set cs \<Longrightarrow> g c acc = acc @ g c []"
  shows "fold g cs acc = acc @ concat (map (\<lambda>c. g c []) cs)"
  using assms
proof (induction cs arbitrary: acc)
  case Nil
  then show ?case by simp
next
  case (Cons c cs)
  have "fold g (c # cs) acc = fold g cs (g c acc)" by simp
  also have "\<dots> = g c acc @ concat (map (\<lambda>c. g c []) cs)"
    by (rule Cons.IH) (rule Cons.prems, simp)
  also have "g c acc = acc @ g c []" by (rule Cons.prems) simp
  finally show ?case by simp
qed

lemma fts_append:
  "fractal_tetra_simple nw sf s depth m (Some acc) sb =
     acc @ fractal_tetra_simple nw sf s depth m (Some []) sb"
proof (induction nw sf s depth m "Some acc" sb arbitrary: acc rule: fractal_tetra_simple.induct)
  case (1 nw sf s depth m sb)
  show ?case
  proof (cases "s \<ge> nw \<and> depth > 0")
    case False
    have "fractal_tetra_simple nw sf s depth m (Some acc) sb = acc"
      by (rule fts_stop [OF False])
    moreover have "fractal_tetra_simple nw sf s depth m (Some []) sb = []"
      by (rule fts_stop [OF False])
    ultimately show ?thesis by (simp only: append_Nil2)
  next
    case True
    let ?g = "\<lambda>c acc. fractal_tetra_simple nw sf (c_size c) (c_depth c) (c_matrix c) (Some acc) (c_skip_base c)"
    let ?cs = "child_calls sf s depth m sb"
    have step: "\<And>c a. c \<in> set ?cs \<Longrightarrow> ?g c a = a @ ?g c []"
      by (rule 1 [OF refl True]) simp_all
    have f: "\<And>a. fold ?g ?cs a = a @ concat (map (\<lambda>c. ?g c []) ?cs)"
      by (rule fold_append_acc) (rule step)
    have "fractal_tetra_simple nw sf s depth m (Some acc) sb = fold ?g ?cs (acc @ [(create_tetra s, m, depth)])"
      by (rule fts_go) (use True in simp_all)
    also have "\<dots> = acc @ fold ?g ?cs ([] @ [(create_tetra s, m, depth)])"
      unfolding f [of "acc @ _"] f [of "[] @ _"] by simp
    also have "fold ?g ?cs ([] @ [(create_tetra s, m, depth)]) = fractal_tetra_simple nw sf s depth m (Some []) sb"
      by (rule fts_go [symmetric]) (use True in simp_all)
    finally show ?thesis .
  qed
qed

lemma fts_unfold:
  "fractal_tetra_simple nw sf s depth m (Some acc) sb =
     (if s \<ge> nw \<and> depth > 0
      then acc @ (create_tetra s, m, depth) # concat (map (call_records nw sf) (child_calls sf s depth m sb))
      else acc)"
proof (cases "s \<ge> nw \<and> depth > 0")
  case False
  have "fractal_tetra_simple nw sf s depth m (Some acc) sb = acc"
    by (rule fts_stop [OF False])
  then show ?thesis using False by (simp only: if_False)
next
  case True
  let ?g = "\<lambda>c acc. fractal_tetra_simple nw sf (c_size c) (c_depth c) (c_matrix c) (Some acc) (c_skip_base c)"
  let ?cs = "child_calls sf s depth m sb"
  have "\<And>a. fold ?g ?cs a = a @ concat (map (\<lambda>c. ?g c []) ?cs)"
    by (rule fold_append_acc) (rule fts_append)
  then have "fold ?g ?cs (acc @ [(create_tetra s, m, depth)]) =
      (acc @ [(create_tetra s, m, depth)]) @ concat (map (call_records nw sf) ?cs)"
    unfolding call_records_def [abs_def] by blast
  moreover have "fractal_tetra_simple nw sf s depth m (Some acc) sb =
      fold ?g ?cs (acc @ [(create_tetra s, m, depth)])"
    by (rule fts_go) (use True in simp_all)
  ultimately show ?thesis using True by simp
qed


lemma child_calls_props:
  "c \<in> set (child_calls sf s depth m sb) \<Longrightarrow>
     c_size c = s * sf \<and> c_depth c = depth - 1 \<and> c_skip_base c = True"
  by (auto simp: child_calls_def faces_def Let_def split: if_splits)



lemma child_calls_True:
  "map c_face (child_calls sf s depth m True) = [1, 2, 3]"
  by (simp add: child_calls_def faces_def Let_def)

lemma child_calls_length_True: "length (child_calls sf s depth m True) = 3"
  by (simp add: child_calls_def faces_def Let_def)

lemma emitted_induct [case_names stop go]:
  assumes stop: "\<And>s depth m sb. \<not> (s \<ge> nw \<and> depth > 0) \<Longrightarrow> Q s depth m sb"
    and go: "\<And>s depth m sb. s \<ge> nw \<Longrightarrow> depth > 0 \<Longrightarrow>
       (\<And>c. c \<in> set (child_calls sf s depth m sb) \<Longrightarrow>
          Q (c_size c) (c_depth c) (c_matrix c) (c_skip_base c)) \<Longrightarrow> Q s depth m sb"
  shows "Q s depth m sb"
proof -
  have "\<forall>s depth m sb. nat depth = n \<longrightarrow> Q s depth m sb" for n
  proof (induction n)
    case 0
    show ?case
    proof (intro allI impI)
      fix s m sb and depth :: int
      assume "nat depth = 0"
      then have "\<not> (s \<ge> nw \<and> depth > 0)" by simp
      then show "Q s depth m sb" by (rule stop)
    qed
  next
    case (Suc n)
    show ?case
    proof (intro allI impI)
      fix s m sb and depth :: int
      assume d: "nat depth = Suc n"
      have ih: "Q (c_size c) (c_depth c) (c_matrix c) (c_skip_base c)"
        if c: "c \<in> set (child_calls sf s depth m sb)" for c
      proof -
        have "nat (c_depth c) = n"
          using child_calls_props [OF c] d by simp
        then show ?thesis using Suc.IH by blast
      qed
      show "Q s depth m sb"
      proof (cases "s \<ge> nw \<and> depth > 0")
        case False
        then show ?thesis by (rule stop)
      next
        case True
        then have "s \<ge> nw" and "depth > 0" by simp_all
        then show ?thesis by (rule go [where sb = sb]) (rule ih)
      qed
    qed
  qed
  then show ?thesis by blast
qed

lemma emitted_stop:
  "\<not> (s \<ge> nw \<and> depth > 0) \<Longrightarrow> fractal_tetra_simple nw sf s depth m None sb = []"
  unfolding fts_None by (rule fts_stop)

lemma emitted_go:
  "s \<ge> nw \<Longrightarrow> depth > 0 \<Longrightarrow>
   fractal_tetra_simple nw sf s depth m None sb =
     (create_tetra s, m, depth) # concat (map (call_records nw sf) (child_calls sf s depth m sb))"
  unfolding fts_None by (simp only: fts_unfold append_Nil simp_thms if_True)

lemma call_records_None:
  "call_records nw sf c =
     fractal_tetra_simple nw sf (c_size c) (c_depth c) (c_matrix c) None (c_skip_base c)"
  by (simp only: call_records_def fts_None)

lemma emitted_depths:
  "(me, ma, d) \<in> set (fractal_tetra_simple nw sf s depth m None sb) \<Longrightarrow> 1 \<le> d \<and> d \<le> depth"
proof (induction s depth m sb arbitrary: me ma d rule: emitted_induct [where nw = nw and sf = sf])
  case (stop s depth m sb)
  then show ?case by (simp add: emitted_stop)
next
  case (go s depth m sb)
  from go(4) have "(me, ma, d) = (create_tetra s, m, depth) \<or>
      (\<exists>c \<in> set (child_calls sf s depth m sb). (me, ma, d) \<in> set (call_records nw sf c))"
    by (simp add: emitted_go [OF go(1,2)])
  then show ?case
  proof
    assume "(me, ma, d) = (create_tetra s, m, depth)"
    then show ?thesis using go(2) by simp
  next
    assume "\<exists>c \<in> set (child_calls sf s depth m sb). (me, ma, d) \<in> set (call_records nw sf c)"
    then obtain c where c: "c \<in> set (child_calls sf s depth m sb)"
      and r: "(me, ma, d) \<in> set (call_records nw sf c)" by blast
    have "1 \<le> d \<and> d \<le> c_depth c"
      using go(3) [OF c] r unfolding call_records_None by blast
    then show ?thesis using child_calls_props [OF c] by simp
  qed
qed

lemma emitted_geometry:
  "(me, ma, d) \<in> set (fractal_tetra_simple nw sf s depth m None sb) \<Longrightarrow>
      me = create_tetra (s * sf ^ nat (depth - d))"
proof (induction s depth m sb arbitrary: me ma d rule: emitted_induct [where nw = nw and sf = sf])
  case (stop s depth m sb)
  then show ?case by (simp add: emitted_stop)
next
  case (go s depth m sb)
  from go(4) have "(me, ma, d) = (create_tetra s, m, depth) \<or>
      (\<exists>c \<in> set (child_calls sf s depth m sb). (me, ma, d) \<in> set (call_records nw sf c))"
    by (simp add: emitted_go [OF go(1,2)])
  then show ?case
  proof
    assume "(me, ma, d) = (create_tetra s, m, depth)"
    then show ?thesis by simp
  next
    assume "\<exists>c \<in> set (child_calls sf s depth m sb). (me, ma, d) \<in> set (call_records nw sf c)"
    then obtain c where c: "c \<in> set (child_calls sf s depth m sb)"
      and r: "(me, ma, d) \<in> set (call_records nw sf c)" by blast
    have p: "c_size c = s * sf" "c_depth c = depth - 1"
      using child_calls_props [OF c] by simp_all
    have r': "(me, ma, d) \<in> set (fractal_tetra_simple nw sf (c_size c) (c_depth c) (c_matrix c) None (c_skip_base c))"
      using r unfolding call_records_None .
    have "d \<le> depth - 1"
      using emitted_depths [OF r'] p by simp
    then have e: "nat (depth - d) = Suc (nat (depth - 1 - d))" by simp
    have "me = create_tetra (c_size c * sf ^ nat (c_depth c - d))"
      using r' by (rule go(3) [OF c])
    then show "me = create_tetra (s * sf ^ nat (depth - d))"
      unfolding p e by (simp add: mult.assoc)
  qed
qed

lemma child_calls_True_eq:
  "child_calls sf s depth m True =
     [\<lparr>c_face = 1, c_size = s * sf, c_depth = depth - 1,
       c_matrix = child_matrix m (s * sf) (fst (faces s ! 1)) (fst (snd (faces s ! 1))),
       c_skip_base = True\<rparr>,
      \<lparr>c_face = 2, c_size = s * sf, c_depth = depth - 1,
       c_matrix = child_matrix m (s * sf) (fst (faces s ! 2)) (fst (snd (faces s ! 2))),
       c_skip_base = True\<rparr>,
      \<lparr>c_face = 3, c_size = s * sf, c_depth = depth - 1,
       c_matrix = child_matrix m (s * sf) (fst (faces s ! 3)) (fst (snd (faces s ! 3))),
       c_skip_base = True\<rparr>]"
  by (simp add: child_calls_def faces_def Let_def)

lemma emitted_length:
  "length (fractal_tetra_simple nw sf s depth m None True) = emitted_count nw sf s depth"
proof (induction s depth m "True" rule: emitted_induct [where nw = nw and sf = sf])
  case (stop s depth m)
  then show ?case by (simp add: emitted_stop emitted_count.simps)
next
  case (go s depth m)
  have l: "length (call_records nw sf c) = emitted_count nw sf (s * sf) (depth - 1)"
    if "c \<in> set (child_calls sf s depth m True)" for c
    using go(3) [OF that] child_calls_props [OF that] by (simp add: call_records_None)
  have "length (concat (map (call_records nw sf) (child_calls sf s depth m True))) =
        3 * emitted_count nw sf (s * sf) (depth - 1)"
    using l unfolding child_calls_True_eq by simp
  then show ?case
    using go(1,2) by (subst emitted_count.simps) (simp add: emitted_go)
qed

lemma count_main: "emitted_count nozzle_width scale_factor size_param recursion_depth = 40"
  unfolding nozzle_width_def scale_factor_def size_param_def recursion_depth_def
  by (simp add: emitted_count.simps)

lemma call_records_abs:
  "call_records nw sf =
     (\<lambda>c. fractal_tetra_simple nw sf (c_size c) (c_depth c) (c_matrix c) None (c_skip_base c))"
  by (rule ext) (rule call_records_None)

lemma emitted_go':
  "s \<ge> nw \<and> depth > 0 \<Longrightarrow>
   fractal_tetra_simple nw sf s depth m None sb =
     (create_tetra s, m, depth) #
     concat (map (\<lambda>c. fractal_tetra_simple nw sf (c_size c) (c_depth c) (c_matrix c) None
                          (c_skip_base c))
                 (child_calls sf s depth m sb))"
  using emitted_go [of nw s depth sf m sb] unfolding call_records_abs by blast

lemma fts_append_None:
  "fractal_tetra_simple nw sf s depth m (Some acc) sb =
     acc @ fractal_tetra_simple nw sf s depth m None sb"
  unfolding fts_None by (rule fts_append)

section \<open>One record per call\<close>

text \<open>
  Claim C3. A call appends to the accumulator and never changes what is already there.
  When \<open>s \<ge> nozzle_width\<close> and \<open>depth > 0\<close> it appends exactly one record of its own, the mesh
  of size \<open>s\<close> with the accumulated matrix and the current depth, followed by the records of
  its recursive calls; otherwise it appends nothing and returns the accumulator unchanged.
  Every record a call emits carries a depth between 1 and the depth of that call, and the
  first one carries the depth of the call.
\<close>

theorem recurse_emits_one_record:
  "fractal_tetra_simple nw sf s depth m (Some acc) sb =
     acc @ fractal_tetra_simple nw sf s depth m None sb
   \<and> (s \<ge> nw \<and> depth > 0 \<longrightarrow>
        fractal_tetra_simple nw sf s depth m None sb =
          (create_tetra s, m, depth) #
          concat (map (\<lambda>c. fractal_tetra_simple nw sf (c_size c) (c_depth c) (c_matrix c) None
                               (c_skip_base c))
                      (child_calls sf s depth m sb)))
   \<and> (\<not> (s \<ge> nw \<and> depth > 0) \<longrightarrow>
        fractal_tetra_simple nw sf s depth m None sb = []
        \<and> fractal_tetra_simple nw sf s depth m (Some acc) sb = acc)
   \<and> (\<forall>(me, ma, d) \<in> set (fractal_tetra_simple nw sf s depth m None sb).
          1 \<le> d \<and> d \<le> depth)"
  using fts_append_None [of nw sf s depth m acc sb] emitted_go' [of nw s depth sf m sb]
    emitted_stop [of nw s depth sf m sb] fts_stop [of nw s depth sf m acc sb]
    emitted_depths [of _ _ _ nw sf s depth m sb]
  by blast

theorem recurse_emits_one_record_witness:
  "(4 / 10 :: real) \<le> 30 \<and> (0 :: int) < 1
   \<and> hd (fractal_tetra_simple (4 / 10) (1 / 2) 30 1 Identity None True) =
         (create_tetra 30, Identity, 1)
   \<and> (create_tetra 30, Identity, 1)
         \<in> set (fractal_tetra_simple (4 / 10) (1 / 2) 30 1 Identity None True)
   \<and> \<not> ((4 / 10 :: real) \<le> 30 \<and> (0 :: int) < 0)
   \<and> fractal_tetra_simple (4 / 10) (1 / 2) 30 0 Identity (Some [(create_tetra 1, Identity, 7)]) True
         = [(create_tetra 1, Identity, 7)]"
  using recurse_emits_one_record [of "4 / 10" "1 / 2" 30 1 Identity "[]" True]
    recurse_emits_one_record [of "4 / 10" "1 / 2" 30 0 Identity "[(create_tetra 1, Identity, 7)]" True]
  by simp

lemma emitted_count_bound: "2 * emitted_count nw sf s depth + 1 \<le> 3 ^ nat depth"
proof -
  have "\<forall>s depth. nat depth = n \<longrightarrow> 2 * emitted_count nw sf s depth + 1 \<le> 3 ^ n" for n
  proof (induction n)
    case 0
    show ?case
    proof (intro allI impI)
      fix s :: real and depth :: int
      assume "nat depth = 0"
      then have "emitted_count nw sf s depth = 0"
        by (subst emitted_count.simps) simp
      then show "2 * emitted_count nw sf s depth + 1 \<le> 3 ^ 0" by simp
    qed
  next
    case (Suc n)
    show ?case
    proof (intro allI impI)
      fix s :: real and depth :: int
      assume d: "nat depth = Suc n"
      then have "nat (depth - 1) = n" by simp
      then have ih: "2 * emitted_count nw sf (s * sf) (depth - 1) + 1 \<le> 3 ^ n"
        using Suc.IH by blast
      have "emitted_count nw sf s depth \<le> 1 + 3 * emitted_count nw sf (s * sf) (depth - 1)"
        by (subst emitted_count.simps) simp
      then show "2 * emitted_count nw sf s depth + 1 \<le> 3 ^ Suc n"
        using ih by simp
    qed
  qed
  then show ?thesis by blast
qed

section \<open>The number of records of the top-level call\<close>

text \<open>
  Claim C6. The top-level call with the parameters 30, 4, 0.5 and 0.4 emits a fixed number of
  records, 40, which is within the bound \<open>1 + 3 + 9 + 27\<close>. The bound is that of three
  children for each parent: whatever the parameters, a call with \<open>skip_base = True\<close> emits
  at most \<open>(3 ^ depth - 1) / 2\<close> records.
\<close>

theorem top_level_count:
  "length all_meshes_main = 40 \<and> length all_meshes_main \<le> 1 + 3 + 9 + 27
   \<and> 2 * length (fractal_tetra_simple nw sf s depth m None True) + 1 \<le> 3 ^ nat depth"
  unfolding all_meshes_main_def
  using emitted_count_bound [of nw sf s depth] by (simp add: emitted_length count_main)

section \<open>The base face is skipped\<close>

text \<open>
  Claim C8. The top-level call passes \<open>skip_base = True\<close>. Under that flag the loop makes its
  recursive calls for the faces 1, 2 and 3 only, never for the base face 0; every recursive
  call is made with \<open>skip_base = True\<close> again; and a call that is not terminated still emits
  its own record first.
\<close>

theorem skip_base_spawns_three:
  "all_meshes_main =
     fractal_tetra_simple nozzle_width scale_factor size_param recursion_depth Identity None True
   \<and> map c_face (child_calls sf s depth m True) = [1, 2, 3]
   \<and> (\<forall>c \<in> set (child_calls sf s depth m sb). c_skip_base c = True)
   \<and> (s \<ge> nw \<and> depth > 0 \<longrightarrow>
        fractal_tetra_simple nw sf s depth m None True =
          (create_tetra s, m, depth) #
          concat (map (\<lambda>c. fractal_tetra_simple nw sf (c_size c) (c_depth c) (c_matrix c) None True)
                      (child_calls sf s depth m True)))"
proof -
  have h: "map (\<lambda>c. fractal_tetra_simple nw sf (c_size c) (c_depth c) (c_matrix c) None (c_skip_base c))
          (child_calls sf s depth m True) =
        map (\<lambda>c. fractal_tetra_simple nw sf (c_size c) (c_depth c) (c_matrix c) None True)
          (child_calls sf s depth m True)"
    by (rule map_cong) (simp_all add: child_calls_props)
  have g: "s \<ge> nw \<and> depth > 0 \<longrightarrow>
        fractal_tetra_simple nw sf s depth m None True =
          (create_tetra s, m, depth) #
          concat (map (\<lambda>c. fractal_tetra_simple nw sf (c_size c) (c_depth c) (c_matrix c) None True)
                      (child_calls sf s depth m True))"
    using emitted_go' [of nw s depth sf m True] unfolding h by blast
  have k: "\<forall>c \<in> set (child_calls sf s depth m sb). c_skip_base c = True"
    using child_calls_props [of _ sf s depth m sb] by blast
  show ?thesis
    using g k child_calls_True [of sf s depth m] all_meshes_main_def by blast
qed

theorem skip_base_spawns_three_witness:
  "(4 / 10 :: real) \<le> 30 \<and> (0 :: int) < 4
   \<and> hd (fractal_tetra_simple (4 / 10) (1 / 2) 30 4 Identity None True) =
        (create_tetra 30, Identity, 4)
   \<and> map c_skip_base (child_calls (1 / 2) 30 4 Identity True) = [True, True, True]"
proof -
  have "\<forall>c \<in> set (child_calls (1 / 2) 30 4 Identity True). c_skip_base c = True"
    using skip_base_spawns_three [of "1 / 2" 30 4 Identity True "4 / 10"] by blast
  moreover have "length (child_calls (1 / 2) 30 4 Identity True) = 3"
    by (rule child_calls_length_True)
  ultimately have "map c_skip_base (child_calls (1 / 2) 30 4 Identity True) = [True, True, True]"
    by (simp add: child_calls_True_eq)
  then show ?thesis
    using skip_base_spawns_three [of "1 / 2" 30 4 Identity True "4 / 10"] by simp
qed

section \<open>The recursion limit\<close>









section \<open>Termination\<close>




section \<open>The geometry of a record is determined by its depth\<close>

text \<open>
  Claim C10. Every record a call of size \<open>s\<close> and depth \<open>depth\<close> emits with depth value \<open>d\<close>
  holds the mesh of edge length \<open>s * scale_factor ^ (depth - d)\<close>; in particular every record
  of the top-level call with depth value \<open>d\<close> holds the mesh of edge length
  \<open>size * scale_factor ^ (recursion_depth - d)\<close>.
\<close>

theorem depth_determines_geometry:
  "(\<forall>(me, ma, d) \<in> set (fractal_tetra_simple nw sf s depth m None sb).
       me = create_tetra (s * sf ^ nat (depth - d)))
   \<and> (\<forall>(me, ma, d) \<in> set all_meshes_main.
       me = create_tetra (size_param * scale_factor ^ nat (recursion_depth - d)))"
  unfolding all_meshes_main_def using emitted_geometry by blast

theorem depth_determines_geometry_witness:
  "(create_tetra 30, Identity, 4) \<in> set all_meshes_main
   \<and> create_tetra 30 = create_tetra (size_param * scale_factor ^ nat (recursion_depth - 4))"
proof -
  have "(create_tetra 30, Identity, 4) \<in> set all_meshes_main"
    unfolding all_meshes_main_def nozzle_width_def scale_factor_def size_param_def
      recursion_depth_def
    by (subst emitted_go) simp_all
  then show ?thesis
    using depth_determines_geometry [of "4 / 10" "1 / 2" 30 4 Identity True] by blast
qed

section \<open>Invalid configurations\<close>




section \<open>Geometry of the placement\<close>

lemma fixes_origin_Identity: "fixes_origin Identity"
  by (simp add: fixes_origin_def Identity_def)

lemma fixes_origin_Rotation: "fixes_origin (Rotation angle axis)"
  by (simp add: fixes_origin_def Identity_def Rotation_def Let_def)

lemma fixes_origin_align: "fixes_origin (get_rotation_matrix_to_align a b)"
  by (simp add: get_rotation_matrix_to_align_def Let_def fixes_origin_Identity fixes_origin_Rotation)

lemma placement_of_base_centroid:
  assumes "fixes_origin R"
  shows "transform_point (matmul (matmul (matmul P (Translation c)) R) (Translation (vneg b))) b =
         transform_point P c"
proof -
  obtain p00 p01 p02 p03 p10 p11 p12 p13 p20 p21 p22 p23 p30 p31 p32 p33 where
    P: "P = Matrix (Row p00 p01 p02 p03) (Row p10 p11 p12 p13) (Row p20 p21 p22 p23) (Row p30 p31 p32 p33)"
    by (metis Matrix.exhaust Row.exhaust)
  obtain r00 r01 r02 r03 r10 r11 r12 r13 r20 r21 r22 r23 r30 r31 r32 r33 where
    R: "R = Matrix (Row r00 r01 r02 r03) (Row r10 r11 r12 r13) (Row r20 r21 r22 r23) (Row r30 r31 r32 r33)"
    by (metis Matrix.exhaust Row.exhaust)
  obtain cx cy cz where c: "c = Vector cx cy cz" by (cases c)
  obtain bx by' bz where b: "b = Vector bx by' bz" by (cases b)
  show ?thesis
    using assms unfolding P R c b
    by (simp add: fixes_origin_def Translation_def vneg_def algebra_simps)
qed


lemma child_matrix_places:
  "transform_point (child_matrix m next_size face_verts normal)
       (Vector (next_size / 2) ((sqrt 3 / 6) * next_size) 0) =
   transform_point m (face_centroid face_verts)"
  unfolding child_matrix_def Let_def
  by (rule placement_of_base_centroid) (rule fixes_origin_align)

lemma child_calls_matrix:
  "c \<in> set (child_calls sf s depth m sb) \<Longrightarrow>
   c_face c < 4 \<and>
   c_matrix c = child_matrix m (c_size c) (fst (faces s ! c_face c)) (fst (snd (faces s ! c_face c)))"
  by (auto simp: child_calls_def faces_def Let_def split: if_splits)

lemma face_centroid_mean:
  assumes "i < 4"
  shows "face_centroid (fst (faces s ! i)) =
     (let vs = mesh_verts (create_tetra s);
          f = mesh_faces (create_tetra s) ! i;
          a = vs ! (f ! 0); b = vs ! (f ! 1); d = vs ! (f ! 2)
      in Vector ((vx a + vx b + vx d) / 3) ((vy a + vy b + vy d) / 3)
                ((vz a + vz b + vz d) / 3))"
proof -
  have "i = 0 \<or> i = 1 \<or> i = 2 \<or> i = 3" using assms by arith
  then show ?thesis
    by (elim disjE)
      (simp_all add: faces_def face_centroid_def create_tetra_def vadd_def vdiv_def Let_def)
qed

lemma base_centroid_mean:
  "Vector (z / 2) ((sqrt 3 / 6) * z) 0 =
     (let ws = mesh_verts (create_tetra z);
          g = mesh_faces (create_tetra z) ! 0;
          a = ws ! (g ! 0); b = ws ! (g ! 1); d = ws ! (g ! 2)
      in Vector ((vx a + vx b + vx d) / 3) ((vy a + vy b + vy d) / 3)
                ((vz a + vz b + vz d) / 3))"
  by (simp add: create_tetra_def Let_def)

text \<open>
  Claim C2. For every recursive call the loop makes, on whatever face, the matrix handed to
  the child (the parent matrix, times the translation to the centroid of the face, times
  the alignment rotation, times the translation by the negated base centroid of the child)
  maps the base centroid \<open>(next_size/2, (sqrt 3/6) next_size, 0)\<close> of the child, which is the
  mean of the three vertices of the base face of the child's mesh, to the point to which
  the parent matrix maps the mean of the three vertices of that face of the parent's mesh.
\<close>

theorem child_base_centroid_lands_on_face_centroid:
  "\<forall>c \<in> set (child_calls sf s depth m sb).
     (let vs = mesh_verts (create_tetra s);
          f = mesh_faces (create_tetra s) ! c_face c;
          a = vs ! (f ! 0); b = vs ! (f ! 1); d = vs ! (f ! 2);
          face_mean = Vector ((vx a + vx b + vx d) / 3) ((vy a + vy b + vy d) / 3)
                             ((vz a + vz b + vz d) / 3);
          ws = mesh_verts (create_tetra (c_size c));
          g = mesh_faces (create_tetra (c_size c)) ! 0;
          a' = ws ! (g ! 0); b' = ws ! (g ! 1); d' = ws ! (g ! 2);
          base_mean = Vector ((vx a' + vx b' + vx d') / 3) ((vy a' + vy b' + vy d') / 3)
                             ((vz a' + vz b' + vz d') / 3)
      in c_size c = s * sf
         \<and> base_mean = Vector (c_size c / 2) ((sqrt 3 / 6) * c_size c) 0
         \<and> transform_point (c_matrix c) (Vector (c_size c / 2) ((sqrt 3 / 6) * c_size c) 0) =
             transform_point m face_mean)"
proof
  fix c assume c: "c \<in> set (child_calls sf s depth m sb)"
  have i: "c_face c < 4" and cm: "c_matrix c =
      child_matrix m (c_size c) (fst (faces s ! c_face c)) (fst (snd (faces s ! c_face c)))"
    using child_calls_matrix [OF c] by blast+
  have z: "c_size c = s * sf" using child_calls_props [OF c] by blast
  have "transform_point (c_matrix c) (Vector (c_size c / 2) ((sqrt 3 / 6) * c_size c) 0) =
        transform_point m (face_centroid (fst (faces s ! c_face c)))"
    unfolding cm by (rule child_matrix_places)
  then show "let vs = mesh_verts (create_tetra s);
          f = mesh_faces (create_tetra s) ! c_face c;
          a = vs ! (f ! 0); b = vs ! (f ! 1); d = vs ! (f ! 2);
          face_mean = Vector ((vx a + vx b + vx d) / 3) ((vy a + vy b + vy d) / 3)
                             ((vz a + vz b + vz d) / 3);
          ws = mesh_verts (create_tetra (c_size c));
          g = mesh_faces (create_tetra (c_size c)) ! 0;
          a' = ws ! (g ! 0); b' = ws ! (g ! 1); d' = ws ! (g ! 2);
          base_mean = Vector ((vx a' + vx b' + vx d') / 3) ((vy a' + vy b' + vy d') / 3)
                             ((vz a' + vz b' + vz d') / 3)
      in c_size c = s * sf
         \<and> base_mean = Vector (c_size c / 2) ((sqrt 3 / 6) * c_size c) 0
         \<and> transform_point (c_matrix c) (Vector (c_size c / 2) ((sqrt 3 / 6) * c_size c) 0) =
             transform_point m face_mean"
    using z base_centroid_mean [of "c_size c"] face_centroid_mean [OF i, of s]
    unfolding Let_def by (simp only: simp_thms)
qed

theorem child_base_centroid_witness:
  "child_calls (1 / 2) 30 4 Identity True \<noteq> []
   \<and> c_face (hd (child_calls (1 / 2) 30 4 Identity True)) = 1
   \<and> c_size (hd (child_calls (1 / 2) 30 4 Identity True)) = 15
   \<and> transform_point (c_matrix (hd (child_calls (1 / 2) 30 4 Identity True)))
         (Vector (15 / 2) ((sqrt 3 / 6) * 15) 0) =
       Vector 15 (5 * sqrt 3 / 3) (10 * sqrt 6 / 3)"
proof -
  let ?cs = "child_calls (1 / 2) 30 4 Identity True"
  have ne: "?cs \<noteq> []" by (simp add: child_calls_True_eq)
  then have m: "hd ?cs \<in> set ?cs" by simp
  have f: "c_face (hd ?cs) = 1" and z: "c_size (hd ?cs) = 15"
    by (simp_all add: child_calls_True_eq)
  have "transform_point (c_matrix (hd ?cs))
          (Vector (c_size (hd ?cs) / 2) ((sqrt 3 / 6) * c_size (hd ?cs)) 0) =
        transform_point Identity
          (let vs = mesh_verts (create_tetra 30);
               f = mesh_faces (create_tetra 30) ! c_face (hd ?cs);
               a = vs ! (f ! 0); b = vs ! (f ! 1); d = vs ! (f ! 2)
           in Vector ((vx a + vx b + vx d) / 3) ((vy a + vy b + vy d) / 3)
                     ((vz a + vz b + vz d) / 3))"
    using child_base_centroid_lands_on_face_centroid [of "1 / 2" 30 4 Identity True] m
    unfolding Let_def by blast
  then have "transform_point (c_matrix (hd ?cs)) (Vector (15 / 2) ((sqrt 3 / 6) * 15) 0) =
        Vector 15 (5 * sqrt 3 / 3) (10 * sqrt 6 / 3)"
    unfolding f z by (simp add: create_tetra_def Identity_def Let_def)
  then show ?thesis using ne f z by blast
qed

lemma vlength_pos: "v \<noteq> Vector 0 0 0 \<Longrightarrow> 0 < vlength v"
proof -
  assume "v \<noteq> Vector 0 0 0"
  then have "vx v \<noteq> 0 \<or> vy v \<noteq> 0 \<or> vz v \<noteq> 0" by (cases v) simp
  then have "0 < vx v * vx v + vy v * vy v + vz v * vz v"
    by (metis add_pos_nonneg add_nonneg_pos zero_le_square not_real_square_gt_zero add_nonneg_nonneg)
  then show ?thesis by (simp add: vlength_def dot_def)
qed

lemma vlength_square: "vlength v * vlength v = dot v v"
proof -
  have "0 \<le> dot v v" by (simp add: dot_def)
  then show ?thesis by (simp add: vlength_def)
qed

lemma normalized_unit:
  assumes "v \<noteq> Vector 0 0 0"
  shows "dot (normalized v) (normalized v) = 1"
proof -
  have p: "0 < vlength v" using assms by (rule vlength_pos)
  then have n: "normalized v = vdiv v (vlength v)" by (simp add: normalized_def)
  have "dot (vdiv v l) (vdiv v l) = dot v v / (l * l)" for l
    by (simp add: vdiv_def dot_def add_divide_distrib)
  then have "dot (normalized v) (normalized v) = dot v v / (vlength v * vlength v)"
    unfolding n by blast
  also have "\<dots> = 1"
  proof -
    have "vlength v * vlength v \<noteq> 0" using p by simp
    then show ?thesis unfolding vlength_square by simp
  qed
  finally show ?thesis .
qed

lemma cross_self: "cross a a = Vector 0 0 0"
  by (simp add: cross_def)

lemma cross_neg_self: "cross a (vneg a) = Vector 0 0 0"
  by (simp add: cross_def vneg_def)

lemma normalized_vneg: "normalized (vneg v) = vneg (normalized v)"
  by (simp add: normalized_def vneg_def vdiv_def vlength_def dot_def)

lemma vlength_zero: "vlength (Vector 0 0 0) = 0"
  by (simp add: vlength_def dot_def)

lemma align_self:
  assumes "v \<noteq> Vector 0 0 0"
  shows "get_rotation_matrix_to_align v v = Identity"
  using normalized_unit [OF assms]
  by (simp add: get_rotation_matrix_to_align_def Let_def cross_self vlength_zero)

lemma Rotation_pi_unit:
  assumes "dot k k = 1"
  shows "Rotation pi k =
     Matrix (Row (2 * vx k * vx k - 1) (2 * vx k * vy k) (2 * vx k * vz k) 0)
            (Row (2 * vx k * vy k) (2 * vy k * vy k - 1) (2 * vy k * vz k) 0)
            (Row (2 * vx k * vz k) (2 * vy k * vz k) (2 * vz k * vz k - 1) 0)
            (Row 0 0 0 1)"
  using assms by (simp add: Rotation_def Let_def vlength_def normalized_def vdiv_def)

lemma half_turn_square:
  fixes x y z :: real
  assumes "x * x + y * y + z * z = 1"
  shows "matmul
     (Matrix (Row (2 * x * x - 1) (2 * x * y) (2 * x * z) 0)
            (Row (2 * x * y) (2 * y * y - 1) (2 * y * z) 0)
            (Row (2 * x * z) (2 * y * z) (2 * z * z - 1) 0)
            (Row 0 0 0 1))
     (Matrix (Row (2 * x * x - 1) (2 * x * y) (2 * x * z) 0)
            (Row (2 * x * y) (2 * y * y - 1) (2 * y * z) 0)
            (Row (2 * x * z) (2 * y * z) (2 * z * z - 1) 0)
            (Row 0 0 0 1)) = Identity"
proof -
  have 1: "(2 * x * x - 1) * (2 * x * x - 1) + 2 * x * y * (2 * x * y) + 2 * x * z * (2 * x * z) = 1"
    using assms by algebra
  have 2: "2 * x * y * (2 * x * y) + (2 * y * y - 1) * (2 * y * y - 1) + 2 * y * z * (2 * y * z) = 1"
    using assms by algebra
  have 3: "2 * x * z * (2 * x * z) + 2 * y * z * (2 * y * z) + (2 * z * z - 1) * (2 * z * z - 1) = 1"
    using assms by algebra
  have 4: "(2 * x * x - 1) * (2 * x * y) + 2 * x * y * (2 * y * y - 1) + 2 * x * z * (2 * y * z) = 0"
    using assms by algebra
  have 5: "(2 * x * x - 1) * (2 * x * z) + 2 * x * y * (2 * y * z) + 2 * x * z * (2 * z * z - 1) = 0"
    using assms by algebra
  have 6: "2 * x * y * (2 * x * z) + (2 * y * y - 1) * (2 * y * z) + 2 * y * z * (2 * z * z - 1) = 0"
    using assms by algebra
  have a4: "2 * x * y * (2 * x * x - 1) + (2 * y * y - 1) * (2 * x * y) + 2 * y * z * (2 * x * z) = 0"
    using 4 by (simp add: algebra_simps)
  have a5: "2 * x * z * (2 * x * x - 1) + 2 * y * z * (2 * x * y) + (2 * z * z - 1) * (2 * x * z) = 0"
    using 5 by (simp add: algebra_simps)
  have a6: "2 * x * z * (2 * x * y) + 2 * y * z * (2 * y * y - 1) + (2 * z * z - 1) * (2 * y * z) = 0"
    using 6 by (simp add: algebra_simps)
  show ?thesis
    unfolding matmul.simps Identity_def
    by (simp only: 1 2 3 4 5 6 a4 a5 a6 mult_zero_right mult_zero_left add_0_right add_0_left mult_1)
qed


lemma dot_cross_left: "dot (cross a b) a = 0"
  by (simp add: dot_def cross_def algebra_simps)

lemma dot_vdiv_left: "dot (vdiv a l) b = dot a b / l"
  by (simp add: dot_def vdiv_def add_divide_distrib)

lemma cross_vdiv_left: "cross (vdiv a l) b = vdiv (cross a b) l"
  by (simp add: cross_def vdiv_def diff_divide_distrib)

lemma dot_normalized_left: "dot a b = 0 \<Longrightarrow> dot (normalized a) b = 0"
  by (simp add: normalized_def dot_vdiv_left) (simp add: dot_def)

lemma perp_axis_nonzero:
  assumes "dot u u = 1"
  shows "cross u (if \<bar>vx u\<bar> < 0.9 then Vector 1 0 0 else Vector 0 1 0) \<noteq> Vector 0 0 0"
proof (cases "\<bar>vx u\<bar> < 0.9")
  case True
  show ?thesis
  proof
    assume "cross u (if \<bar>vx u\<bar> < 0.9 then Vector 1 0 0 else Vector 0 1 0) = Vector 0 0 0"
    then have "vy u = 0" "vz u = 0" using True by (simp_all add: cross_def)
    then have "vx u * vx u = 1" using assms by (simp add: dot_def)
    then have "\<bar>vx u\<bar> = 1" by (metis abs_mult_self_eq abs_one real_sqrt_abs2 real_sqrt_one power2_eq_square real_sqrt_abs)
    then show False using True by simp
  qed
next
  case False
  then have "vx u \<noteq> 0" by auto
  then show ?thesis using False by (simp add: cross_def)
qed

lemma half_turn_apply:
  assumes "vx k * x + vy k * y + vz k * z = 0"
  shows "transform_point
     (Matrix (Row (2 * vx k * vx k - 1) (2 * vx k * vy k) (2 * vx k * vz k) 0)
            (Row (2 * vx k * vy k) (2 * vy k * vy k - 1) (2 * vy k * vz k) 0)
            (Row (2 * vx k * vz k) (2 * vy k * vz k) (2 * vz k * vz k - 1) 0)
            (Row 0 0 0 1)) (Vector x y z) = Vector (- x) (- y) (- z)"
proof -
  have 1: "(2 * vx k * vx k - 1) * x + 2 * vx k * vy k * y + 2 * vx k * vz k * z
        = 2 * vx k * (vx k * x + vy k * y + vz k * z) - x"
    by (simp add: algebra_simps)
  have 2: "2 * vx k * vy k * x + (2 * vy k * vy k - 1) * y + 2 * vy k * vz k * z
        = 2 * vy k * (vx k * x + vy k * y + vz k * z) - y"
    by (simp add: algebra_simps)
  have 3: "2 * vx k * vz k * x + 2 * vy k * vz k * y + (2 * vz k * vz k - 1) * z
        = 2 * vz k * (vx k * x + vy k * y + vz k * z) - z"
    by (simp add: algebra_simps)
  show ?thesis
    unfolding transform_point.simps add_0_right 1 2 3 assms by simp
qed

lemma align_opposite:
  assumes "v \<noteq> Vector 0 0 0"
  shows "\<exists>k. dot k k = 1 \<and> dot k v = 0
           \<and> get_rotation_matrix_to_align v (vneg v) = Rotation pi k"
proof -
  define u where "u = normalized v"
  define perp where "perp = (if \<bar>vx u\<bar> < 0.9 then Vector 1 0 0 else Vector 0 1 0)"
  define k where "k = normalized (cross u perp)"
  have uu: "dot u u = 1" unfolding u_def using assms by (rule normalized_unit)
  have "cross u perp \<noteq> Vector 0 0 0"
    unfolding perp_def using uu by (rule perp_axis_nonzero)
  then have kk: "dot k k = 1" unfolding k_def by (rule normalized_unit)
  have l: "0 < vlength v" using assms by (rule vlength_pos)
  then have un: "u = vdiv v (vlength v)" by (simp add: u_def normalized_def)
  have "dot (cross u perp) v = 0"
    unfolding un cross_vdiv_left dot_vdiv_left by (simp add: dot_cross_left)
  then have kv: "dot k v = 0" unfolding k_def by (rule dot_normalized_left)
  have d: "dot u (vneg u) = - 1"
    using uu by (simp add: dot_def vneg_def)
  have "get_rotation_matrix_to_align v (vneg v) = Rotation pi k"
    unfolding get_rotation_matrix_to_align_def Let_def normalized_vneg
    unfolding u_def [symmetric] cross_neg_self vlength_zero d
    unfolding perp_def [symmetric] k_def [symmetric]
    by simp
  then show ?thesis using kk kv by blast
qed

lemma dot_neg_normalized:
  assumes "w \<noteq> Vector 0 0 0" and "0 < dot w d"
  shows "dot (vneg (normalized w)) d < 0"
proof -
  have p: "0 < vlength w" using assms(1) by (rule vlength_pos)
  then have "dot (vneg (normalized w)) d = - (dot w d / vlength w)"
    by (simp add: normalized_def vneg_def vdiv_def dot_def add_divide_distrib)
  then show ?thesis using p assms(2) by simp
qed

lemma s63: "sqrt 6 * sqrt 3 = 3 * sqrt 2"
proof -
  have "sqrt 6 * sqrt 3 = sqrt 18" by (simp add: real_sqrt_mult [symmetric])
  also have "\<dots> = sqrt (3 * 3 * 2)" by simp
  also have "\<dots> = 3 * sqrt 2" by (simp only: real_sqrt_mult) simp
  finally show ?thesis .
qed

lemma front:
  assumes "0 < s"
  shows "outward_component s 1 < 0"
proof -
  let ?e1 = "vsub (Vector s 0 0) (Vector 0 0 0)"
  let ?e2 = "vsub (Vector (s / 2) ((sqrt 3 / 6) * s) (sqrt 6 / 3 * s)) (Vector 0 0 0)"
  let ?w = "cross ?e1 ?e2"
  let ?d = "vsub (face_centroid [Vector 0 0 0, Vector s 0 0, Vector (s / 2) ((sqrt 3 / 6) * s) (sqrt 6 / 3 * s)]) (solid_centroid s)"
  have w: "?w = Vector 0 (- (s * s * sqrt 6 / 3)) (s * s * sqrt 3 / 6)"
    by (simp add: cross_def vsub_def)
  have nz: "?w \<noteq> Vector 0 0 0" unfolding w using assms by simp
  have d: "?d = Vector 0 (- (sqrt 3 * s / 9)) (sqrt 6 * s / 36)"
    by (simp add: face_centroid_def solid_centroid_def create_tetra_def vsub_def vadd_def vdiv_def)
  have "dot ?w ?d = s * s * s * (sqrt 6 * sqrt 3) * (1 / 27 + 1 / 216)"
    unfolding w d by (simp add: dot_def algebra_simps)
  also have "\<dots> > 0" using assms unfolding s63 by simp
  finally have "0 < dot ?w ?d" .
  with nz have "dot (vneg (normalized ?w)) ?d < 0" by (rule dot_neg_normalized)
  then show ?thesis
    by (simp add: outward_component_def faces_def face_normal_def Let_def)
qed


lemma s36: "sqrt 3 * sqrt 6 = 3 * sqrt 2"
  using s63 by (simp add: mult.commute)

lemma right:
  assumes "0 < s"
  shows "outward_component s 2 < 0"
proof -
  let ?v1 = "Vector s 0 0"
  let ?v2 = "Vector (s / 2) ((sqrt 3 / 2) * s) 0"
  let ?v3 = "Vector (s / 2) ((sqrt 3 / 6) * s) (sqrt 6 / 3 * s)"
  let ?w = "cross (vsub ?v2 ?v1) (vsub ?v3 ?v1)"
  let ?d = "vsub (face_centroid [?v1, ?v2, ?v3]) (solid_centroid s)"
  have w: "?w = Vector (s * s * sqrt 2 / 2) (s * s * sqrt 6 / 6) (s * s * sqrt 3 / 6)"
    by (simp add: cross_def vsub_def s36 s63 algebra_simps)
  have nz: "?w \<noteq> Vector 0 0 0" unfolding w using assms by simp
  have d: "?d = Vector (s / 6) (sqrt 3 * s / 18) (sqrt 6 * s / 36)"
    by (simp add: face_centroid_def solid_centroid_def create_tetra_def vsub_def vadd_def vdiv_def)
  have "dot ?w ?d = s * s * s * (sqrt 2 / 12) + s * s * s * (sqrt 6 * sqrt 3) / 108
      + s * s * s * (sqrt 3 * sqrt 6) / 216"
    unfolding w d by (simp add: dot_def algebra_simps)
  also have "\<dots> = s * s * s * sqrt 2 / 8" unfolding s63 s36 by (simp add: algebra_simps)
  also have "\<dots> > 0" using assms by simp
  finally have "0 < dot ?w ?d" .
  with nz have "dot (vneg (normalized ?w)) ?d < 0" by (rule dot_neg_normalized)
  then show ?thesis
    by (simp add: outward_component_def faces_def face_normal_def Let_def)
qed

lemma left:
  assumes "0 < s"
  shows "outward_component s 3 < 0"
proof -
  let ?v0 = "Vector 0 0 0"
  let ?v2 = "Vector (s / 2) ((sqrt 3 / 2) * s) 0"
  let ?v3 = "Vector (s / 2) ((sqrt 3 / 6) * s) (sqrt 6 / 3 * s)"
  let ?w = "cross (vsub ?v0 ?v2) (vsub ?v3 ?v2)"
  let ?d = "vsub (face_centroid [?v2, ?v0, ?v3]) (solid_centroid s)"
  have w: "?w = Vector (- (s * s * sqrt 2 / 2)) (s * s * sqrt 6 / 6) (s * s * sqrt 3 / 6)"
    by (simp add: cross_def vsub_def s36 s63 algebra_simps)
  have nz: "?w \<noteq> Vector 0 0 0" unfolding w using assms by simp
  have d: "?d = Vector (- (s / 6)) (sqrt 3 * s / 18) (sqrt 6 * s / 36)"
    by (simp add: face_centroid_def solid_centroid_def create_tetra_def vsub_def vadd_def vdiv_def)
  have "dot ?w ?d = s * s * s * (sqrt 2 / 12) + s * s * s * (sqrt 6 * sqrt 3) / 108
      + s * s * s * (sqrt 3 * sqrt 6) / 216"
    unfolding w d by (simp add: dot_def algebra_simps)
  also have "\<dots> = s * s * s * sqrt 2 / 8" unfolding s63 s36 by (simp add: algebra_simps)
  also have "\<dots> > 0" using assms by simp
  finally have "0 < dot ?w ?d" .
  with nz have "dot (vneg (normalized ?w)) ?d < 0" by (rule dot_neg_normalized)
  then show ?thesis
    by (simp add: outward_component_def faces_def face_normal_def Let_def)
qed

lemma base:
  assumes "0 < s"
  shows "fst (snd (faces s ! 0)) = Some (Vector 0 0 1)"
    and "face_normal (fst (faces s ! 0)) (fst (snd (faces s ! 0))) = Vector 0 0 1"
    and "outward_component s 0 < 0"
  using assms
  by (simp_all add: outward_component_def faces_def face_normal_def Let_def dot_def
      face_centroid_def solid_centroid_def create_tetra_def vsub_def vadd_def vdiv_def)

section \<open>Aligning a direction with itself and with its negation\<close>

text \<open>
  Claim C7. For every vector \<open>v\<close> other than zero, \<open>get_rotation_matrix_to_align v v\<close> is the
  identity, and \<open>get_rotation_matrix_to_align v (- v)\<close> is a rotation by \<open>pi\<close> about a unit axis
  perpendicular to \<open>v\<close>: it maps \<open>v\<close> to \<open>- v\<close> and its product with itself is the identity.
\<close>

theorem align_self_and_opposite:
  assumes "v \<noteq> Vector 0 0 0"
  shows "get_rotation_matrix_to_align v v = Identity
       \<and> matmul (get_rotation_matrix_to_align v (vneg v))
                (get_rotation_matrix_to_align v (vneg v)) = Identity
       \<and> transform_point (get_rotation_matrix_to_align v (vneg v)) v = vneg v
       \<and> (\<exists>k. dot k k = 1 \<and> dot k v = 0
              \<and> get_rotation_matrix_to_align v (vneg v) = Rotation pi k)"
proof -
  obtain k where kk: "dot k k = 1" and kv: "dot k v = 0"
    and r: "get_rotation_matrix_to_align v (vneg v) = Rotation pi k"
    using align_opposite [OF assms] by blast
  have sq: "matmul (Rotation pi k) (Rotation pi k) = Identity"
    unfolding Rotation_pi_unit [OF kk]
    by (rule half_turn_square) (use kk in \<open>simp add: dot_def\<close>)
  obtain x y z where v: "v = Vector x y z" by (cases v)
  have "transform_point (Rotation pi k) (Vector x y z) = Vector (- x) (- y) (- z)"
    unfolding Rotation_pi_unit [OF kk]
    by (rule half_turn_apply) (use kv v in \<open>simp add: dot_def\<close>)
  then have ap: "transform_point (Rotation pi k) v = vneg v"
    unfolding v by (simp add: vneg_def)
  show ?thesis
    using align_self [OF assms] sq ap kk kv unfolding r by blast
qed

theorem align_self_and_opposite_witness:
  "Vector 0 0 (- 1) \<noteq> Vector 0 0 0
   \<and> get_rotation_matrix_to_align (Vector 0 0 (- 1)) (Vector 0 0 (- 1)) = Identity
   \<and> matmul (get_rotation_matrix_to_align (Vector 0 0 (- 1)) (vneg (Vector 0 0 (- 1))))
            (get_rotation_matrix_to_align (Vector 0 0 (- 1)) (vneg (Vector 0 0 (- 1))))
       = Identity"
proof -
  have h: "Vector 0 0 (- 1) \<noteq> Vector 0 0 0" by simp
  show ?thesis using align_self_and_opposite [OF h] h by blast
qed

section \<open>The direction of the face normals\<close>

text \<open>
  Claim C1 says that the normal computed for each of the three side faces points away from
  the interior of the solid, its dot product with the vector from the centroid of the solid
  to the centroid of the face being positive. On the code the dot product is negative for
  every \<open>s > 0\<close> and every side face: the cross product of the two edges already points
  outward and the negation turns it inward. The normal of the base face is the fixed
  direction \<open>(0, 0, 1)\<close>, as the claim says, and it points into the solid as well.
\<close>

theorem side_normals_point_inward:
  assumes "0 < s"
  shows "outward_component s 1 < 0 \<and> outward_component s 2 < 0 \<and> outward_component s 3 < 0
       \<and> face_normal (fst (faces s ! 0)) (fst (snd (faces s ! 0))) = Vector 0 0 1
       \<and> outward_component s 0 < 0"
  using front [OF assms] right [OF assms] left [OF assms] base [OF assms] by blast

theorem side_normals_point_inward_witness:
  "(0 :: real) < 30 \<and> outward_component 30 1 < 0 \<and> outward_component 30 2 < 0
   \<and> outward_component 30 3 < 0"
proof -
  have h: "(0 :: real) < 30" by simp
  show ?thesis using side_normals_point_inward [OF h] h by blast
qed

end
